theory Spec2Isabelle
  imports Main "HOL-Library.Sublist" "HOL-Library.Multiset" "HOL-Library.Log_Nat"
begin

section \<open>Data model\<close>

text \<open>
  The rows of the two tables, as the server and the client read them
  (\<^verbatim>\<open>User\<close> and \<^verbatim>\<open>Task\<close> of the shared schema).  A JavaScript string is a
  \<^typ>\<open>string\<close>; a column that may hold \<^verbatim>\<open>null\<close> is an \<^typ>\<open>'a option\<close>; a
  timestamp is a natural number (an instant on the server's clock).  The field
  \<^verbatim>\<open>id\<close> is written \<open>id_user\<close> and \<open>id_task\<close>, since \<open>id\<close> is HOL's identity.
\<close>

type_synonym timestamp = nat

record User =
  id_user :: string
  username :: string
  password :: string

record Task =
  id_task :: string
  userId :: string
  title :: string
  description :: "string option"
  dueDate :: "timestamp option"
  completed :: bool
  priority :: "string option"
  category :: "string option"
  createdAt :: timestamp


section \<open>Client-side filtering (\<^verbatim>\<open>TaskList.applyFilters\<close>)\<close>

text \<open>
  \<^verbatim>\<open>String.prototype.toLowerCase\<close> is a function of the language, not of the
  program: the filter takes it as the argument \<open>toLowerCase\<close>, so that what is
  proved holds of every case mapping, also one that looks at the context of a
  letter.  A string stands for the UTF-8 bytes of the JavaScript string; on
  well-formed strings one occurs in another as bytes exactly when it does as
  UTF-16 code units.
\<close>

text \<open>\<^verbatim>\<open>s.includes(sub)\<close>: \<open>sub\<close> occurs in \<open>s\<close> at some position.\<close>

fun includes_str :: "string \<Rightarrow> string \<Rightarrow> bool" where
  "includes_str [] sub = (sub = [])"
| "includes_str (c # cs) sub = (prefix sub (c # cs) \<or> includes_str cs sub)"

text \<open>
  \<^verbatim>\<open>TaskFiltersState\<close>.  Its fields \<^verbatim>\<open>priority\<close>, \<^verbatim>\<open>category\<close> and \<^verbatim>\<open>completed\<close>
  carry the suffix \<open>_filter\<close> here, since the task has fields of the same names.
\<close>

record TaskFiltersState =
  search :: string
  priority_filter :: "string list"
  category_filter :: "string list"
  completed_filter :: string

text \<open>
  \<^verbatim>\<open>task.title.toLowerCase().includes(searchLower) ||
  (task.description && task.description.toLowerCase().includes(searchLower))\<close>
\<close>

definition matchesSearch :: "(string \<Rightarrow> string) \<Rightarrow> string \<Rightarrow> Task \<Rightarrow> bool" where
  "matchesSearch toLowerCase searchLower task =
     (includes_str (toLowerCase (title task)) searchLower \<or>
      (case description task of
         None \<Rightarrow> False
       | Some d \<Rightarrow> d \<noteq> [] \<and> includes_str (toLowerCase d) searchLower))"

text \<open>
  \<^verbatim>\<open>!task.priority || !filters.priority.includes(task.priority)\<close>, and the same
  test on the category.  A value that is \<^verbatim>\<open>null\<close> or the empty string is falsy, so
  \<^verbatim>\<open>!v\<close> holds of it.
\<close>

definition missingOrNotSelected :: "string option \<Rightarrow> string list \<Rightarrow> bool" where
  "missingOrNotSelected v selected =
     (case v of None \<Rightarrow> True | Some s \<Rightarrow> s = [] \<or> s \<notin> set selected)"

text \<open>
  The callback of \<^verbatim>\<open>tasks.filter\<close>: each test returns \<^verbatim>\<open>false\<close> early, in the
  order of the source; a task that passes all of them is kept.
\<close>

definition keepTask :: "(string \<Rightarrow> string) \<Rightarrow> TaskFiltersState \<Rightarrow> Task \<Rightarrow> bool" where
  "keepTask toLowerCase filters task =
     (if search filters \<noteq> [] \<and>
         \<not> matchesSearch toLowerCase (toLowerCase (search filters)) task
        then False
      else if priority_filter filters \<noteq> [] \<and>
              missingOrNotSelected (priority task) (priority_filter filters)
        then False
      else if category_filter filters \<noteq> [] \<and>
              missingOrNotSelected (category task) (category_filter filters)
        then False
      else if completed_filter filters = ''active'' \<and> completed task
        then False
      else if completed_filter filters = ''completed'' \<and> \<not> completed task
        then False
      else True)"

definition applyFilters ::
  "(string \<Rightarrow> string) \<Rightarrow> TaskFiltersState \<Rightarrow> Task list \<Rightarrow> Task list" where
  "applyFilters toLowerCase filters tasks = filter (keepTask toLowerCase filters) tasks"

subsection \<open>Where the filter state comes from (\<^verbatim>\<open>Dashboard\<close>, \<^verbatim>\<open>TaskFilters\<close>)\<close>

text \<open>The initial filter state of the dashboard.\<close>

definition initialFilters :: TaskFiltersState where
  "initialFilters =
     \<lparr>search = [], priority_filter = [], category_filter = [], completed_filter = ''all''\<rparr>"

text \<open>The handlers of the filter component; each yields the next filter state.\<close>

definition clearFilters :: TaskFiltersState where
  "clearFilters =
     \<lparr>search = [], priority_filter = [], category_filter = [], completed_filter = ''all''\<rparr>"

definition handleSearchChange :: "TaskFiltersState \<Rightarrow> string \<Rightarrow> TaskFiltersState" where
  "handleSearchChange filters v = filters\<lparr>search := v\<rparr>"

text \<open>
  \<^verbatim>\<open>filters.priority.includes(priority) ? filters.priority.filter(p => p !== priority)
  : [...filters.priority, priority]\<close>, and the same on the categories.
\<close>

definition toggle :: "string list \<Rightarrow> string \<Rightarrow> string list" where
  "toggle selected v =
     (if v \<in> set selected then filter (\<lambda>p. p \<noteq> v) selected else selected @ [v])"

definition togglePriority :: "TaskFiltersState \<Rightarrow> string \<Rightarrow> TaskFiltersState" where
  "togglePriority filters p = filters\<lparr>priority_filter := toggle (priority_filter filters) p\<rparr>"

definition toggleCategory :: "TaskFiltersState \<Rightarrow> string \<Rightarrow> TaskFiltersState" where
  "toggleCategory filters c = filters\<lparr>category_filter := toggle (category_filter filters) c\<rparr>"

text \<open>\<^verbatim>\<open>onValueChange\<close> of the completion select, and the close button of its badge.\<close>

definition selectCompleted :: "TaskFiltersState \<Rightarrow> string \<Rightarrow> TaskFiltersState" where
  "selectCompleted filters v = filters\<lparr>completed_filter := v\<rparr>"

text \<open>
  \<^verbatim>\<open>availableCategories\<close> of the dashboard: the categories of the tasks that are
  truthy, each once.  The source sorts them; the order of the checkboxes plays no
  part below and is not modelled.
\<close>

definition availableCategories :: "Task list \<Rightarrow> string list" where
  "availableCategories tasks =
     remdups (concat (map (\<lambda>t. case category t of
                                  None \<Rightarrow> []
                                | Some c \<Rightarrow> if c \<noteq> [] then [c] else []) tasks))"

text \<open>
  The filter states that the component can hand to the list: the initial state,
  and from a state the one after typing a search text, after a click on a
  priority checkbox (\<^verbatim>\<open>high\<close>, \<^verbatim>\<open>medium\<close>, \<^verbatim>\<open>low\<close>) or on the badge of a selected
  priority, after a click on the checkbox of an available category or on the
  badge of a selected one, after a choice of the completion mode, and after
  \<^verbatim>\<open>Clear\<close>.
\<close>

inductive filtersReachable :: "TaskFiltersState \<Rightarrow> bool" where
  initial: "filtersReachable initialFilters"
| typed: "filtersReachable f \<Longrightarrow> filtersReachable (handleSearchChange f v)"
| priorityBox:
    "filtersReachable f \<Longrightarrow> p \<in> set [''high'', ''medium'', ''low''] \<Longrightarrow>
     filtersReachable (togglePriority f p)"
| priorityBadge:
    "filtersReachable f \<Longrightarrow> p \<in> set (priority_filter f) \<Longrightarrow>
     filtersReachable (togglePriority f p)"
| categoryBox:
    "filtersReachable f \<Longrightarrow> c \<in> set (availableCategories ts) \<Longrightarrow>
     filtersReachable (toggleCategory f c)"
| categoryBadge:
    "filtersReachable f \<Longrightarrow> c \<in> set (category_filter f) \<Longrightarrow>
     filtersReachable (toggleCategory f c)"
| completedChosen:
    "filtersReachable f \<Longrightarrow> v \<in> set [''all'', ''active'', ''completed''] \<Longrightarrow>
     filtersReachable (selectCompleted f v)"
| cleared: "filtersReachable f \<Longrightarrow> filtersReachable clearFilters"

code_pred filtersReachable .

subsection \<open>The filter as the specification words it\<close>

text \<open>
  Case-insensitive substring match: the lower-cased needle occurs in the
  lower-cased text.
\<close>

definition matchesIgnoringCase :: "(string \<Rightarrow> string) \<Rightarrow> string \<Rightarrow> string \<Rightarrow> bool" where
  "matchesIgnoringCase toLowerCase needle text = sublist (toLowerCase needle) (toLowerCase text)"

definition searchCriterion :: "(string \<Rightarrow> string) \<Rightarrow> TaskFiltersState \<Rightarrow> Task \<Rightarrow> bool" where
  "searchCriterion toLowerCase f t =
     (search f = [] \<or> matchesIgnoringCase toLowerCase (search f) (title t) \<or>
      (case description t of
         None \<Rightarrow> False
       | Some d \<Rightarrow> matchesIgnoringCase toLowerCase (search f) d))"

definition completionCriterion :: "TaskFiltersState \<Rightarrow> Task \<Rightarrow> bool" where
  "completionCriterion f t =
     (if completed_filter f = ''active'' then \<not> completed t
      else if completed_filter f = ''completed'' then completed t
      else True)"

text \<open>
  Membership as the specification states it: the value of the task is one of the
  selected elements.
\<close>

definition oneOfSelected :: "string option \<Rightarrow> string list \<Rightarrow> bool" where
  "oneOfSelected v selected = (case v of None \<Rightarrow> False | Some s \<Rightarrow> s \<in> set selected)"

definition statedCriteria :: "(string \<Rightarrow> string) \<Rightarrow> TaskFiltersState \<Rightarrow> Task \<Rightarrow> bool" where
  "statedCriteria toLowerCase f t =
     (searchCriterion toLowerCase f t \<and>
      (priority_filter f = [] \<or> oneOfSelected (priority t) (priority_filter f)) \<and>
      (category_filter f = [] \<or> oneOfSelected (category t) (category_filter f)) \<and>
      completionCriterion f t)"

subsection \<open>Concrete tasks and filter states\<close>

text \<open>
  A case mapping for the concrete checks: it moves \<^verbatim>\<open>A\<close>..\<^verbatim>\<open>Z\<close> to \<^verbatim>\<open>a\<close>..\<^verbatim>\<open>z\<close> and
  keeps every other byte, which is what \<^verbatim>\<open>toLowerCase\<close> does on ASCII text.
\<close>

definition asciiLowerCase_char :: "char \<Rightarrow> char" where
  "asciiLowerCase_char c =
     (if (65::nat) \<le> of_char c \<and> of_char c \<le> (90::nat)
      then char_of (of_char c + (32::nat)) else c)"

definition asciiLowerCase :: "string \<Rightarrow> string" where
  "asciiLowerCase s = map asciiLowerCase_char s"

definition milk :: Task where
  "milk = \<lparr>id_task = ''t1'', userId = ''u1'', title = ''Buy Milk'', description = None,
            dueDate = None, completed = False, priority = Some ''medium'',
            category = Some [], createdAt = 10\<rparr>"

definition report :: Task where
  "report = \<lparr>id_task = ''t2'', userId = ''u1'', title = ''Quarterly report'',
              description = Some ''Numbers for the MILK board'', dueDate = Some 99,
              completed = True, priority = Some ''high'', category = Some ''work'',
              createdAt = 20\<rparr>"

text \<open>
  The state after typing \<^verbatim>\<open>milk\<close>, ticking the priorities \<^verbatim>\<open>high\<close> and \<^verbatim>\<open>low\<close> and the
  category \<^verbatim>\<open>work\<close>, and choosing the mode \<^verbatim>\<open>completed\<close>.
\<close>

definition milkHighWork :: TaskFiltersState where
  "milkHighWork =
     selectCompleted
       (toggleCategory
          (togglePriority (togglePriority (handleSearchChange initialFilters ''milk'') ''high'')
             ''low'')
          ''work'')
       ''completed''"


section \<open>Server: responses and authentication\<close>

text \<open>
  What a handler sends: \<^verbatim>\<open>res.json(x)\<close> (status 200),
  \<^verbatim>\<open>res.status(422).json({message: "Validation failed", errors})\<close>, or
  \<^verbatim>\<open>res.status(n).json({message})\<close>.
\<close>

datatype 'a response =
    Json 'a
  | ValidationFailed "string list"
  | Failed nat string

fun status :: "'a response \<Rightarrow> nat" where
  "status (Json _) = 200"
| "status (ValidationFailed _) = 422"
| "status (Failed n _) = n"

text \<open>
  A session token of the \<^verbatim>\<open>jsonwebtoken\<close> library, with the cryptography abstracted:
  the payload \<^verbatim>\<open>{userId}\<close>, the key the signature was made with, and the expiry
  (\<^verbatim>\<open>exp\<close>, in seconds).  \<^verbatim>\<open>jwt.verify\<close> throws (here \<open>None\<close>) on a signature of
  another key and on an expired token, and returns the payload otherwise.
\<close>

record JWT =
  payload_userId :: string
  signedWith :: string
  expiresAt :: nat

definition jwt_verify :: "JWT \<Rightarrow> string \<Rightarrow> nat \<Rightarrow> string option" where
  "jwt_verify token secret clock =
     (if signedWith token = secret \<and> clock < expiresAt token
      then Some (payload_userId token) else None)"

definition jwt_sign :: "string \<Rightarrow> string \<Rightarrow> nat \<Rightarrow> JWT" where
  "jwt_sign uid secret clock =
     \<lparr>payload_userId = uid, signedWith = secret, expiresAt = clock + 7 * 24 * 60 * 60\<rparr>"

text \<open>
  What a request finds around it: the signing secret, the clock (in seconds),
  the identifier the database generates for the next inserted row, and
  \<^verbatim>\<open>bcrypt.hash(password, 10)\<close> with the salt this request draws.
\<close>

record Env =
  JWT_SECRET :: string
  now :: nat
  newId :: string
  bcrypt_hash :: "string \<Rightarrow> string"

text \<open>
  \<^verbatim>\<open>authenticateToken\<close>.  The argument is \<^verbatim>\<open>req.cookies?.[TOKEN_COOKIE]\<close>.  \<open>Inl\<close> is
  the message of the response the middleware sends itself, always with status
  401; \<open>Inr\<close> is \<^verbatim>\<open>req.userId\<close>, with which \<^verbatim>\<open>next()\<close> runs the handler.  The
  middleware reads no table.
\<close>

definition authenticateToken :: "Env \<Rightarrow> JWT option \<Rightarrow> string + string" where
  "authenticateToken env cookie =
     (case cookie of
        None \<Rightarrow> Inl ''Authentication required''
      | Some token \<Rightarrow>
          (case jwt_verify token (JWT_SECRET env) (now env) of
             Some uid \<Rightarrow> Inr uid
           | None \<Rightarrow> Inl ''Invalid or expired token''))"


section \<open>Server: storage (\<^verbatim>\<open>DatabaseStorage\<close>)\<close>

text \<open>The two tables, each a list of rows in insertion order.\<close>

record Database =
  users :: "User list"
  tasks :: "Task list"

text \<open>
  Modelled from the spec: the shared schema (the declarations of the tables
  \<^verbatim>\<open>users\<close> and \<^verbatim>\<open>tasks\<close>, and the types \<^verbatim>\<open>InsertUser\<close> and \<^verbatim>\<open>InsertTask\<close>) is
  not among the sources.  By the specification a task is written through the
  fields title, description, dueDate, completed, priority and category only;
  the identifier and the creation timestamp are generated by the database, and
  completed defaults to false, priority to medium and the other optional columns
  to null.  In an insert or an update a field is left out (\<^verbatim>\<open>undefined\<close>), set to
  \<^verbatim>\<open>null\<close>, or given a value.
\<close>

datatype 'a field = Omitted | Null | Given 'a

record InsertTask =
  new_title :: string
  new_description :: "string field"
  new_dueDate :: "timestamp field"
  new_completed :: "bool option"
  new_priority :: "string field"
  new_category :: "string field"

record PartialInsertTask =
  set_title :: "string option"
  set_description :: "string field"
  set_dueDate :: "timestamp field"
  set_completed :: "bool option"
  set_priority :: "string field"
  set_category :: "string field"

text \<open>The value a nullable column takes from a field, \<open>d\<close> where the field is left out.\<close>

fun column :: "'a option \<Rightarrow> 'a field \<Rightarrow> 'a option" where
  "column d Omitted = d"
| "column d Null = None"
| "column d (Given v) = Some v"

text \<open>The same for a column that cannot be null.\<close>

fun column_notnull :: "'a \<Rightarrow> 'a option \<Rightarrow> 'a" where
  "column_notnull d None = d"
| "column_notnull d (Some v) = v"

text \<open>
  The exceptions that a query throws in this model; the \<^verbatim>\<open>catch\<close> branch of the
  handler answers them with status 500.
\<close>

datatype dbError = ForeignKeyViolation | NoValuesToSet

text \<open>\<^verbatim>\<open>select().from(t).where(eq(col, v)).limit(1)\<close>, then \<^verbatim>\<open>result[0]\<close>.\<close>

definition getUser :: "Database \<Rightarrow> string \<Rightarrow> User option" where
  "getUser db i = find (\<lambda>u. id_user u = i) (users db)"

definition getUserByUsername :: "Database \<Rightarrow> string \<Rightarrow> User option" where
  "getUserByUsername db name = find (\<lambda>u. username u = name) (users db)"

definition createUser :: "Env \<Rightarrow> Database \<Rightarrow> string \<times> string \<Rightarrow> User \<times> Database" where
  "createUser env db insertUser =
     (let row = \<lparr>id_user = newId env, username = fst insertUser, password = snd insertUser\<rparr>
      in (row, db\<lparr>users := users db @ [row]\<rparr>))"

text \<open>
  \<^verbatim>\<open>orderBy(sql`${tasks.createdAt} DESC`)\<close>: the rows by descending creation
  timestamp.  The query leaves the order of rows with equal timestamps open; here
  it is the one of this sort.
\<close>

definition orderByCreatedAtDesc :: "Task list \<Rightarrow> Task list" where
  "orderByCreatedAtDesc rows = rev (sort_key createdAt rows)"

definition getTasksByUserId :: "Database \<Rightarrow> string \<Rightarrow> Task list" where
  "getTasksByUserId db uid = orderByCreatedAtDesc (filter (\<lambda>t. userId t = uid) (tasks db))"

definition getTask :: "Database \<Rightarrow> string \<Rightarrow> Task option" where
  "getTask db i = find (\<lambda>t. id_task t = i) (tasks db)"

text \<open>
  \<^verbatim>\<open>insert(tasks).values(taskData).returning()\<close>, then \<^verbatim>\<open>result[0]\<close>.

  Modelled from the spec: the declaration of the table \<^verbatim>\<open>tasks\<close> is not among the
  sources.  By the specification the owning user identifier of a task is a
  foreign key to the users, so the insert of a row whose owner is in no user row
  fails, and the query throws.
\<close>

definition createTask ::
  "Env \<Rightarrow> Database \<Rightarrow> InsertTask \<Rightarrow> string \<Rightarrow> dbError + Task \<times> Database" where
  "createTask env db taskData uid =
     (if getUser db uid = None then Inl ForeignKeyViolation
      else
        (let row = \<lparr>id_task = newId env, userId = uid, title = new_title taskData,
                    description = column None (new_description taskData),
                    dueDate = column None (new_dueDate taskData),
                    completed = column_notnull False (new_completed taskData),
                    priority = column (Some ''medium'') (new_priority taskData),
                    category = column None (new_category taskData),
                    createdAt = now env\<rparr>
         in Inr (row, db\<lparr>tasks := tasks db @ [row]\<rparr>)))"

text \<open>\<^verbatim>\<open>set(updates)\<close> on one row: a field that is left out keeps the column.\<close>

definition setColumns :: "PartialInsertTask \<Rightarrow> Task \<Rightarrow> Task" where
  "setColumns updates row =
     row\<lparr>title := column_notnull (title row) (set_title updates),
         description := column (description row) (set_description updates),
         dueDate := column (dueDate row) (set_dueDate updates),
         completed := column_notnull (completed row) (set_completed updates),
         priority := column (priority row) (set_priority updates),
         category := column (category row) (set_category updates)\<rparr>"

text \<open>
  An update object without a value: every field is \<^verbatim>\<open>undefined\<close>.  The query
  builder's \<^verbatim>\<open>set\<close> throws on it (\<^verbatim>\<open>No values to set\<close>).
\<close>

definition noValuesToSet :: "PartialInsertTask \<Rightarrow> bool" where
  "noValuesToSet updates =
     (set_title updates = None \<and> set_description updates = Omitted \<and>
      set_dueDate updates = Omitted \<and> set_completed updates = None \<and>
      set_priority updates = Omitted \<and> set_category updates = Omitted)"

text \<open>
  \<^verbatim>\<open>update(tasks).set(updates).where(eq(tasks.id, id)).returning()\<close>, then
  \<^verbatim>\<open>result[0]\<close> (\<^verbatim>\<open>undefined\<close>, here \<open>None\<close>, when no row matched).
\<close>

definition updateTask ::
  "Database \<Rightarrow> string \<Rightarrow> PartialInsertTask \<Rightarrow> dbError + Task option \<times> Database" where
  "updateTask db i updates =
     (if noValuesToSet updates then Inl NoValuesToSet
      else
        (let result = map (setColumns updates) (filter (\<lambda>t. id_task t = i) (tasks db))
         in Inr (case result of [] \<Rightarrow> None | r # _ \<Rightarrow> Some r,
                 db\<lparr>tasks := map (\<lambda>t. if id_task t = i then setColumns updates t else t)
                                  (tasks db)\<rparr>)))"

text \<open>\<^verbatim>\<open>delete(tasks).where(eq(tasks.id, id)).returning()\<close>, then \<^verbatim>\<open>result.length > 0\<close>.\<close>

definition deleteTask :: "Database \<Rightarrow> string \<Rightarrow> bool \<times> Database" where
  "deleteTask db i =
     (let result = filter (\<lambda>t. id_task t = i) (tasks db)
      in (result \<noteq> [], db\<lparr>tasks := filter (\<lambda>t. id_task t \<noteq> i) (tasks db)\<rparr>))"


section \<open>Server: the task and registration handlers\<close>

text \<open>
  Each handler takes the database and returns its response with the database
  after it.  The schema (\<^verbatim>\<open>insertTaskSchema.safeParse\<close>,
  \<^verbatim>\<open>insertTaskSchema.partial().safeParse\<close>, \<^verbatim>\<open>insertUserSchema.safeParse\<close>) is an
  argument: \<open>Inl\<close> carries the errors, \<open>Inr\<close> the parsed data.  The \<^verbatim>\<open>catch\<close>
  branch of a handler answers, with status 500 and the database as it was, the
  exceptions that the storage throws: the violated foreign key of an insert and
  the update without a value.  Other failures of the driver, a lost connection
  for one, are not modelled.
\<close>

definition get_tasks :: "Env \<Rightarrow> Database \<Rightarrow> JWT option \<Rightarrow> Task list response" where
  "get_tasks env db cookie =
     (case authenticateToken env cookie of
        Inl message \<Rightarrow> Failed 401 message
      | Inr uid \<Rightarrow> Json (getTasksByUserId db uid))"

definition post_task ::
  "Env \<Rightarrow> ('b \<Rightarrow> string list + InsertTask) \<Rightarrow> Database \<Rightarrow> JWT option \<Rightarrow> 'b
     \<Rightarrow> Task response \<times> Database" where
  "post_task env schema db cookie body =
     (case authenticateToken env cookie of
        Inl message \<Rightarrow> (Failed 401 message, db)
      | Inr uid \<Rightarrow>
          (case schema body of
             Inl errors \<Rightarrow> (ValidationFailed errors, db)
           | Inr data \<Rightarrow>
               (case createTask env db data uid of
                  Inl error \<Rightarrow> (Failed 500 ''Failed to create task'', db)
                | Inr (task, db') \<Rightarrow> (Json task, db'))))"

definition patch_task ::
  "Env \<Rightarrow> ('b \<Rightarrow> string list + PartialInsertTask) \<Rightarrow> Database \<Rightarrow> JWT option \<Rightarrow> string \<Rightarrow> 'b
     \<Rightarrow> Task option response \<times> Database" where
  "patch_task env schema db cookie i body =
     (case authenticateToken env cookie of
        Inl message \<Rightarrow> (Failed 401 message, db)
      | Inr uid \<Rightarrow>
          (case schema body of
             Inl errors \<Rightarrow> (ValidationFailed errors, db)
           | Inr updates \<Rightarrow>
               (case getTask db i of
                  None \<Rightarrow> (Failed 404 ''Task not found'', db)
                | Some task \<Rightarrow>
                    if userId task \<noteq> uid then (Failed 403 ''Forbidden'', db)
                    else
                      (case updateTask db i updates of
                         Inl error \<Rightarrow> (Failed 500 ''Failed to update task'', db)
                       | Inr (updatedTask, db') \<Rightarrow> (Json updatedTask, db')))))"

definition delete_task ::
  "Env \<Rightarrow> Database \<Rightarrow> JWT option \<Rightarrow> string \<Rightarrow> string response \<times> Database" where
  "delete_task env db cookie i =
     (case authenticateToken env cookie of
        Inl message \<Rightarrow> (Failed 401 message, db)
      | Inr uid \<Rightarrow>
          (case getTask db i of
             None \<Rightarrow> (Failed 404 ''Task not found'', db)
           | Some task \<Rightarrow>
               if userId task \<noteq> uid then (Failed 403 ''Forbidden'', db)
               else (Json ''Task deleted successfully'', snd (deleteTask db i))))"

text \<open>
  \<^verbatim>\<open>POST /api/auth/register\<close>.  The third component is the session cookie the
  response sets, if any.  The response body is the user without the password:
  the identifier and the username.
\<close>

definition register ::
  "Env \<Rightarrow> ('b \<Rightarrow> string list + string \<times> string) \<Rightarrow> Database \<Rightarrow> 'b
     \<Rightarrow> (string \<times> string) response \<times> Database \<times> JWT option" where
  "register env schema db body =
     (case schema body of
        Inl errors \<Rightarrow> (ValidationFailed errors, db, None)
      | Inr (name, pw) \<Rightarrow>
          (case getUserByUsername db name of
             Some existingUser \<Rightarrow> (Failed 400 ''Username already exists'', db, None)
           | None \<Rightarrow>
               (let hashedPassword = bcrypt_hash env pw;
                    (user, db') = createUser env db (name, hashedPassword);
                    token = jwt_sign (id_user user) (JWT_SECRET env) (now env)
                in (Json (id_user user, username user), db', Some token))))"


section \<open>Server: the daily quote\<close>

text \<open>The field \<^verbatim>\<open>text\<close> of a quote is written \<open>text_quote\<close>.\<close>

record Quote =
  text_quote :: string
  author :: string

text \<open>The em dash of the eighth quote, in UTF-8.\<close>

definition emDash :: string where
  "emDash = [char_of (226::nat), char_of (128::nat), char_of (148::nat)]"

definition quotes :: "Quote list" where
  "quotes =
     [\<lparr>text_quote = ''The secret of getting ahead is getting started.'',
       author = ''Mark Twain''\<rparr>,
      \<lparr>text_quote = ''It always seems impossible until it's done.'',
       author = ''Nelson Mandela''\<rparr>,
      \<lparr>text_quote = ''Don't watch the clock; do what it does. Keep going.'',
       author = ''Sam Levenson''\<rparr>,
      \<lparr>text_quote = ''The future depends on what you do today.'',
       author = ''Mahatma Gandhi''\<rparr>,
      \<lparr>text_quote = ''Believe you can and you're halfway there.'',
       author = ''Theodore Roosevelt''\<rparr>,
      \<lparr>text_quote = ''Success is not final, failure is not fatal: it is the courage to continue that counts.'',
       author = ''Winston Churchill''\<rparr>,
      \<lparr>text_quote = ''The only way to do great work is to love what you do.'',
       author = ''Steve Jobs''\<rparr>,
      \<lparr>text_quote = ''Your limitation'' @ emDash @ ''it's only your imagination.'',
       author = ''Unknown''\<rparr>,
      \<lparr>text_quote = ''Push yourself, because no one else is going to do it for you.'',
       author = ''Unknown''\<rparr>,
      \<lparr>text_quote = ''Great things never come from comfort zones.'',
       author = ''Unknown''\<rparr>,
      \<lparr>text_quote = ''Dream it. Wish it. Do it.'',
       author = ''Unknown''\<rparr>,
      \<lparr>text_quote = ''Success doesn't just find you. You have to go out and get it.'',
       author = ''Unknown''\<rparr>,
      \<lparr>text_quote = ''The harder you work for something, the greater you'll feel when you achieve it.'',
       author = ''Unknown''\<rparr>,
      \<lparr>text_quote = ''Dream bigger. Do bigger.'',
       author = ''Unknown''\<rparr>,
      \<lparr>text_quote = ''Don't stop when you're tired. Stop when you're done.'',
       author = ''Unknown''\<rparr>,
      \<lparr>text_quote = ''Wake up with determination. Go to bed with satisfaction.'',
       author = ''Unknown''\<rparr>,
      \<lparr>text_quote = ''Do something today that your future self will thank you for.'',
       author = ''Sean Patrick Flanery''\<rparr>,
      \<lparr>text_quote = ''Little things make big days.'',
       author = ''Unknown''\<rparr>,
      \<lparr>text_quote = ''It's going to be hard, but hard does not mean impossible.'',
       author = ''Unknown''\<rparr>,
      \<lparr>text_quote = ''Don't wait for opportunity. Create it.'',
       author = ''Unknown''\<rparr>]"

text \<open>
  \<^verbatim>\<open>cachedQuote\<close> is \<^verbatim>\<open>{...randomQuote, date: today}\<close>: the fields of the picked
  quote, which are all \<^verbatim>\<open>undefined\<close> (\<open>None\<close>) if the index misses the list, and the
  date string of the day of the pick.
\<close>

record CachedQuote =
  picked :: "Quote option"
  date :: string

text \<open>
  A double that is not negative: the number \<open>significand / 2 ^ binaryPlaces\<close>.
  \<^verbatim>\<open>Math.random()\<close> returns a double that is at least 0 and less than 1: its
  significand has at most 53 bits and is less than \<open>2 ^ binaryPlaces\<close>.
\<close>

record double =
  significand :: nat
  binaryPlaces :: nat

definition isMathRandom :: "double \<Rightarrow> bool" where
  "isMathRandom x = (significand x < 2 ^ 53 \<and> significand x < 2 ^ binaryPlaces x)"

text \<open>
  The rounding of a double operation, on the numerator of the exact result: a
  numerator of more than 53 bits is rounded to 53 significant bits, to the
  nearest, and to the even one of two that are equally near.  A numerator of at
  most 53 bits over the denominator of a double is a double itself, and one of
  more bits is far above the subnormal range, where a double has fewer bits.
\<close>

definition roundToDouble :: "nat \<Rightarrow> nat" where
  "roundToDouble n =
     (if n < 2 ^ 53 then n
      else
        (let s = floorlog 2 n - 53;
             q = n div 2 ^ s;
             r = n mod 2 ^ s
         in (if 2 ^ s < 2 * r \<or> (2 * r = 2 ^ s \<and> odd q) then q + 1 else q) * 2 ^ s))"

text \<open>
  \<^verbatim>\<open>quotes[Math.floor(Math.random() * quotes.length)]\<close>, for the double \<open>random\<close>
  that \<^verbatim>\<open>Math.random()\<close> returns.  The product is the rounded double product, with
  the numerator \<open>product\<close> over \<open>2 ^ binaryPlaces random\<close>; \<^verbatim>\<open>Math.floor\<close> of it is
  the quotient.  An index that misses the list reads \<^verbatim>\<open>undefined\<close> (\<open>None\<close>).
\<close>

definition randomQuote :: "double \<Rightarrow> Quote option" where
  "randomQuote random =
     (let product = roundToDouble (significand random * length quotes);
          i = product div 2 ^ binaryPlaces random
      in if i < length quotes then Some (quotes ! i) else None)"

text \<open>
  \<^verbatim>\<open>GET /api/quotes/daily/:refresh?\<close>.  \<open>today\<close> is \<^verbatim>\<open>new Date().toDateString()\<close>,
  \<open>refresh\<close> is the optional path parameter, which the handler never reads.  The
  handler takes the cache and returns its response (\<^verbatim>\<open>{text, author}\<close>) with the
  cache after it.
\<close>

definition get_daily_quote ::
  "string \<Rightarrow> double \<Rightarrow> string option \<Rightarrow> CachedQuote option
     \<Rightarrow> Quote option response \<times> CachedQuote option" where
  "get_daily_quote today random refresh cachedQuote =
     (let cachedQuote' =
            (case cachedQuote of
               None \<Rightarrow> \<lparr>picked = randomQuote random, date = today\<rparr>
             | Some c \<Rightarrow>
                 if date c \<noteq> today then \<lparr>picked = randomQuote random, date = today\<rparr> else c)
      in (Json (picked cachedQuote'), Some cachedQuote'))"

text \<open>
  A run of the process: the calls in order, each with its day, its random number
  and its path parameter, from a given cache; the result is the list of the
  responses.  The process starts with \<^verbatim>\<open>cachedQuote = null\<close>.
\<close>

fun serve ::
  "CachedQuote option \<Rightarrow> (string \<times> double \<times> string option) list
     \<Rightarrow> Quote option response list" where
  "serve cache [] = []"
| "serve cache ((today, random, refresh) # calls) =
     (let (sent, cache') = get_daily_quote today random refresh cache
      in sent # serve cache' calls)"


section \<open>The task schema, from the specification\<close>

text \<open>
  A value of a JSON request body, and the body itself: an object, as the map from
  its keys to their values.  A number is an integer here, which is all the
  schema below reads.
\<close>

datatype json = JNull | JBool bool | JNum int | JStr string

type_synonym body = "string \<rightharpoonup> json"

text \<open>
  Modelled from the spec: \<^verbatim>\<open>insertTaskSchema\<close> of the shared schema is not among
  the sources.  By the specification a non-empty title is required and the other
  fields are optional: description and category are free text, dueDate is a
  timestamp, completed is a boolean, and priority, if present, is one of low,
  medium and high.  Each validator returns \<open>None\<close> on a value it rejects.  The
  title rule is also the one the client form adds
  (\<^verbatim>\<open>title: z.string().min(1, "Title is required")\<close>).
\<close>

definition nonEmptyString :: "json option \<Rightarrow> string option" where
  "nonEmptyString v = (case v of Some (JStr s) \<Rightarrow> if s = [] then None else Some s | _ \<Rightarrow> None)"

definition optionalNonEmptyString :: "json option \<Rightarrow> string option option" where
  "optionalNonEmptyString v =
     (case v of None \<Rightarrow> Some None | Some j \<Rightarrow> map_option Some (nonEmptyString (Some j)))"

definition optionalText :: "json option \<Rightarrow> string field option" where
  "optionalText v =
     (case v of
        None \<Rightarrow> Some Omitted
      | Some JNull \<Rightarrow> Some Null
      | Some (JStr s) \<Rightarrow> Some (Given s)
      | Some _ \<Rightarrow> None)"

definition optionalTimestamp :: "json option \<Rightarrow> timestamp field option" where
  "optionalTimestamp v =
     (case v of
        None \<Rightarrow> Some Omitted
      | Some JNull \<Rightarrow> Some Null
      | Some (JNum n) \<Rightarrow> if 0 \<le> n then Some (Given (nat n)) else None
      | Some _ \<Rightarrow> None)"

definition optionalBoolean :: "json option \<Rightarrow> bool option option" where
  "optionalBoolean v =
     (case v of None \<Rightarrow> Some None | Some (JBool b) \<Rightarrow> Some (Some b) | Some _ \<Rightarrow> None)"

definition optionalPriority :: "json option \<Rightarrow> string field option" where
  "optionalPriority v =
     (case v of
        None \<Rightarrow> Some Omitted
      | Some JNull \<Rightarrow> Some Null
      | Some (JStr s) \<Rightarrow> if s \<in> {''low'', ''medium'', ''high''} then Some (Given s) else None
      | Some _ \<Rightarrow> None)"

text \<open>The names of the optional fields that a body gets wrong.\<close>

definition optionalFieldErrors :: "body \<Rightarrow> string list" where
  "optionalFieldErrors b =
     (if optionalText (b ''description'') = None then [''description''] else []) @
     (if optionalTimestamp (b ''dueDate'') = None then [''dueDate''] else []) @
     (if optionalBoolean (b ''completed'') = None then [''completed''] else []) @
     (if optionalPriority (b ''priority'') = None then [''priority''] else []) @
     (if optionalText (b ''category'') = None then [''category''] else [])"

definition insertTaskSchema :: "body \<Rightarrow> string list + InsertTask" where
  "insertTaskSchema b =
     (let errors = (if nonEmptyString (b ''title'') = None then [''title''] else []) @
                   optionalFieldErrors b
      in if errors \<noteq> [] then Inl errors
         else Inr \<lparr>new_title = the (nonEmptyString (b ''title'')),
                   new_description = the (optionalText (b ''description'')),
                   new_dueDate = the (optionalTimestamp (b ''dueDate'')),
                   new_completed = the (optionalBoolean (b ''completed'')),
                   new_priority = the (optionalPriority (b ''priority'')),
                   new_category = the (optionalText (b ''category''))\<rparr>)"

text \<open>\<^verbatim>\<open>insertTaskSchema.partial()\<close>: the same rules, with the title optional too.\<close>

definition insertTaskSchema_partial :: "body \<Rightarrow> string list + PartialInsertTask" where
  "insertTaskSchema_partial b =
     (let errors = (if optionalNonEmptyString (b ''title'') = None then [''title''] else []) @
                   optionalFieldErrors b
      in if errors \<noteq> [] then Inl errors
         else Inr \<lparr>set_title = the (optionalNonEmptyString (b ''title'')),
                   set_description = the (optionalText (b ''description'')),
                   set_dueDate = the (optionalTimestamp (b ''dueDate'')),
                   set_completed = the (optionalBoolean (b ''completed'')),
                   set_priority = the (optionalPriority (b ''priority'')),
                   set_category = the (optionalText (b ''category''))\<rparr>)"


section \<open>Concrete states and requests\<close>

text \<open>
  Two users, each with tasks, a server environment, and session tokens: one of
  each user, and one of a user who is no longer in the table.
\<close>

definition alice :: User where
  "alice = \<lparr>id_user = ''u1'', username = ''alice'', password = ''$2a$10$hash-of-pw1''\<rparr>"

definition bob :: User where
  "bob = \<lparr>id_user = ''u2'', username = ''bob'', password = ''$2a$10$hash-of-hunter2''\<rparr>"

definition errand :: Task where
  "errand = \<lparr>id_task = ''t3'', userId = ''u2'', title = ''Post office'',
              description = Some ''stamps'', dueDate = None, completed = False,
              priority = Some ''low'', category = None, createdAt = 15\<rparr>"

definition exampleDb :: Database where
  "exampleDb = \<lparr>users = [alice, bob], tasks = [milk, errand, report]\<rparr>"

definition exampleEnv :: Env where
  "exampleEnv = \<lparr>JWT_SECRET = ''motivodo-secret-key'', now = 1000, newId = ''t4'',
                  bcrypt_hash = (\<lambda>pw. ''$2a$10$hash-of-'' @ pw)\<rparr>"

definition aliceToken :: JWT where
  "aliceToken = jwt_sign ''u1'' ''motivodo-secret-key'' 500"

definition bobToken :: JWT where
  "bobToken = jwt_sign ''u2'' ''motivodo-secret-key'' 900"

definition carolToken :: JWT where
  "carolToken = jwt_sign ''u9'' ''motivodo-secret-key'' 900"

definition completeBody :: body where
  "completeBody = [''completed'' \<mapsto> JBool True]"

definition buyMilkBody :: body where
  "buyMilkBody = [''title'' \<mapsto> JStr ''Buy milk'']"

definition emptyTitleBody :: body where
  "emptyTitleBody = [''title'' \<mapsto> JStr [], ''priority'' \<mapsto> JStr ''high'']"

definition noTitleBody :: body where
  "noTitleBody = [''description'' \<mapsto> JStr ''no title given'']"

definition registerBody :: "string \<times> string" where
  "registerBody = (''alice'', ''pw2'')"

text \<open>A user schema for the concrete check: it takes the pair as it is.\<close>

definition anyCredentials :: "string \<times> string \<Rightarrow> string list + string \<times> string" where
  "anyCredentials b = Inr b"

text \<open>
  Three values of \<^verbatim>\<open>Math.random()\<close>: one half, the double nearest to 0.15, and the
  largest double below 1.
\<close>

definition half :: double where
  "half = \<lparr>significand = 1, binaryPlaces = 1\<rparr>"

definition nearly015 :: double where
  "nearly015 = \<lparr>significand = 5404319552844595, binaryPlaces = 55\<rparr>"

definition largestBelowOne :: double where
  "largestBelowOne = \<lparr>significand = 9007199254740991, binaryPlaces = 53\<rparr>"

definition exampleCalls :: "(string \<times> double \<times> string option) list" where
  "exampleCalls =
     [(''Mon Nov 02 2026'', half, None),
      (''Mon Nov 02 2026'', nearly015, Some ''1''),
      (''Tue Nov 03 2026'', largestBelowOne, Some ''2'')]"

definition mondayCalls :: "(string \<times> double \<times> string option) list" where
  "mondayCalls =
     [(''Mon Nov 02 2026'', half, None),
      (''Mon Nov 02 2026'', nearly015, Some ''1''),
      (''Mon Nov 02 2026'', largestBelowOne, Some ''2'')]"

text \<open>
  The foreign key of the specification's data model (every task has exactly one
  owner, a user): every task row names a user row.
\<close>

definition foreignKeysHold :: "Database \<Rightarrow> bool" where
  "foreignKeysHold db = list_all (\<lambda>t. getUser db (userId t) \<noteq> None) (tasks db)"

text \<open>The invariant of the quote cache: what it holds was picked from the list.\<close>

definition cacheFromList :: "CachedQuote option \<Rightarrow> bool" where
  "cacheFromList cache =
     (case cache of
        None \<Rightarrow> True
      | Some c \<Rightarrow> (case picked c of None \<Rightarrow> False | Some q \<Rightarrow> q \<in> set quotes))"


section \<open>Properties of the filter\<close>

lemma includes_sublist: "includes_str s sub \<longleftrightarrow> sublist sub s"
  by (induction s) (simp_all add: sublist_Cons_right)

lemma matchesSearch_iff:
  "matchesSearch lc (lc needle) t \<longleftrightarrow>
     matchesIgnoringCase lc needle (title t) \<or>
     (case description t of None \<Rightarrow> False
      | Some d \<Rightarrow> d \<noteq> [] \<and> matchesIgnoringCase lc needle d)"
  by (simp add: matchesSearch_def matchesIgnoringCase_def includes_sublist split: option.split)

lemma empty_description_no_match:
  assumes "lc [] = []" and "\<And>s. lc s = [] \<Longrightarrow> s = []" and "needle \<noteq> []"
  shows "\<not> matchesIgnoringCase lc needle []"
  using assms by (auto simp: matchesIgnoringCase_def)

lemma search_test_iff:
  assumes "lc [] = []" and "\<And>s. lc s = [] \<Longrightarrow> s = []"
  shows "(search f \<noteq> [] \<and> \<not> matchesSearch lc (lc (search f)) t) \<longleftrightarrow>
         \<not> searchCriterion lc f t"
proof (cases "search f = []")
  case True
  then show ?thesis by (simp add: searchCriterion_def)
next
  case False
  then show ?thesis
    using empty_description_no_match [of lc "search f", OF assms]
    by (cases "description t") (auto simp: searchCriterion_def matchesSearch_iff)
qed

lemma missingOrNotSelected_iff:
  assumes "[] \<notin> set sel"
  shows "missingOrNotSelected v sel \<longleftrightarrow> \<not> oneOfSelected v sel"
  using assms
  by (auto simp: missingOrNotSelected_def oneOfSelected_def split: option.split)

lemma keepTask_iff:
  assumes "lc [] = []" and "\<And>s. lc s = [] \<Longrightarrow> s = []"
    and "[] \<notin> set (priority_filter f)" and "[] \<notin> set (category_filter f)"
  shows "keepTask lc f t \<longleftrightarrow> statedCriteria lc f t"
proof -
  have "keepTask lc f t \<longleftrightarrow>
          \<not> (search f \<noteq> [] \<and> \<not> matchesSearch lc (lc (search f)) t) \<and>
          \<not> (priority_filter f \<noteq> [] \<and> missingOrNotSelected (priority t) (priority_filter f)) \<and>
          \<not> (category_filter f \<noteq> [] \<and> missingOrNotSelected (category t) (category_filter f)) \<and>
          \<not> (completed_filter f = ''active'' \<and> completed t) \<and>
          \<not> (completed_filter f = ''completed'' \<and> \<not> completed t)"
    unfolding keepTask_def by (simp only: if_False if_True split: if_split) blast
  also have "\<dots> \<longleftrightarrow> statedCriteria lc f t"
  proof -
    have s: "(search f \<noteq> [] \<and> \<not> matchesSearch lc (lc (search f)) t) \<longleftrightarrow>
             \<not> searchCriterion lc f t"
      using assms(1,2) by (rule search_test_iff)
    show ?thesis
      unfolding s missingOrNotSelected_iff [OF assms(3)] missingOrNotSelected_iff [OF assms(4)]
        statedCriteria_def completionCriterion_def
      by auto
  qed
  finally show ?thesis .
qed

lemma keepTask_initialFilters: "keepTask lc initialFilters t"
  by (simp add: keepTask_def initialFilters_def)

lemma toggle_no_empty:
  "[] \<notin> set selected \<Longrightarrow> v \<noteq> [] \<or> v \<in> set selected \<Longrightarrow> [] \<notin> set (toggle selected v)"
  by (auto simp: toggle_def)

lemma availableCategories_no_empty: "[] \<notin> set (availableCategories ts)"
  by (auto simp: availableCategories_def split: option.splits if_splits)

text \<open>
  No filter state that the component produces holds the empty string in a
  selection: the priorities offered are \<^verbatim>\<open>high\<close>, \<^verbatim>\<open>medium\<close> and \<^verbatim>\<open>low\<close>, and the
  categories offered are truthy.
\<close>

lemma filtersReachable_no_empty_selection:
  "filtersReachable f \<Longrightarrow> [] \<notin> set (priority_filter f) \<and> [] \<notin> set (category_filter f)"
proof (induction rule: filtersReachable.induct)
  case initial
  show ?case by (simp add: initialFilters_def)
next
  case (typed f v)
  then show ?case by (simp add: handleSearchChange_def)
next
  case (priorityBox f p)
  then have "p \<noteq> []" by auto
  with priorityBox.IH show ?case
    by (simp add: togglePriority_def toggle_no_empty)
next
  case (priorityBadge f p)
  then show ?case
    by (simp add: togglePriority_def toggle_no_empty)
next
  case (categoryBox f c ts)
  then have "c \<noteq> []"
    using availableCategories_no_empty [of ts] by auto
  with categoryBox.IH show ?case
    by (simp add: toggleCategory_def toggle_no_empty)
next
  case (categoryBadge f c)
  then show ?case
    by (simp add: toggleCategory_def toggle_no_empty)
next
  case (completedChosen f v)
  then show ?case by (simp add: selectCompleted_def)
next
  case (cleared f)
  show ?case by (simp add: clearFilters_def)
qed

lemma asciiLowerCase_empty_iff: "asciiLowerCase s = [] \<longleftrightarrow> s = []"
  by (simp add: asciiLowerCase_def)

lemma milkHighWork_fields:
  "search milkHighWork = ''milk''"
  "priority_filter milkHighWork = [''high'', ''low'']"
  "category_filter milkHighWork = [''work'']"
  "completed_filter milkHighWork = ''completed''"
  by (simp_all add: milkHighWork_def selectCompleted_def toggleCategory_def togglePriority_def
      handleSearchChange_def initialFilters_def toggle_def)

lemma milkHighWork_reachable: "filtersReachable milkHighWork"
proof -
  have "''work'' \<in> set (availableCategories [milk, report])"
    by (simp add: availableCategories_def milk_def report_def)
  then show ?thesis
    unfolding milkHighWork_def
    by (intro filtersReachable.completedChosen filtersReachable.categoryBox
        filtersReachable.priorityBox filtersReachable.typed filtersReachable.initial) simp_all
qed

text \<open>
  Claim C5.  For every task list and every filter state whose selections do not
  hold the empty string, which is every state the filter component produces, the
  filter returns exactly the tasks of the list (in their order) that satisfy
  every active criterion: a non-empty search text occurs, after lower-casing both,
  in the title or in the description; a non-empty priority (category) selection
  holds the task's priority (category); mode \<^verbatim>\<open>active\<close> drops the completed tasks
  and mode \<^verbatim>\<open>completed\<close> the others; an empty search text, an empty selection and
  any other mode constrain nothing.  The result depends on the task list and the
  filter state only.  The case mapping is any function that keeps the empty
  string empty and a non-empty string non-empty.
\<close>

theorem applyFilters_all_active_criteria:
  assumes "toLowerCase [] = []"
    and "\<And>s. toLowerCase s = [] \<Longrightarrow> s = []"
    and "[] \<notin> set (priority_filter f)"
    and "[] \<notin> set (category_filter f)"
  shows "applyFilters toLowerCase f ts = filter (statedCriteria toLowerCase f) ts \<and>
         (t \<in> set (applyFilters toLowerCase f ts) \<longleftrightarrow>
            t \<in> set ts \<and> statedCriteria toLowerCase f t)"
proof -
  have "keepTask toLowerCase f = statedCriteria toLowerCase f"
    using keepTask_iff [of toLowerCase, OF assms] by blast
  then show ?thesis
    by (simp add: applyFilters_def)
qed

theorem applyFilters_all_active_criteria_witness:
  "asciiLowerCase [] = [] \<and>
   [] \<notin> set (priority_filter milkHighWork) \<and> [] \<notin> set (category_filter milkHighWork) \<and>
   filtersReachable milkHighWork \<and>
   applyFilters asciiLowerCase milkHighWork [milk, report] = [report] \<and>
   statedCriteria asciiLowerCase milkHighWork report \<and>
   \<not> statedCriteria asciiLowerCase milkHighWork milk"
proof -
  have e: "asciiLowerCase [] = []"
    by (simp add: asciiLowerCase_def)
  have n: "\<And>s. asciiLowerCase s = [] \<Longrightarrow> s = []"
    by (simp add: asciiLowerCase_empty_iff)
  have p: "[] \<notin> set (priority_filter milkHighWork)"
    and c: "[] \<notin> set (category_filter milkHighWork)"
    by (simp_all add: milkHighWork_fields)
  have l: "asciiLowerCase ''milk'' = ''milk''"
    "asciiLowerCase ''Numbers for the MILK board'' = ''numbers for the milk board''"
    by code_simp+
  have r: "statedCriteria asciiLowerCase milkHighWork report"
    by (simp add: statedCriteria_def searchCriterion_def completionCriterion_def
        oneOfSelected_def matchesIgnoringCase_def milkHighWork_fields report_def l
        sublist_code(3))
  have m: "\<not> statedCriteria asciiLowerCase milkHighWork milk"
    by (simp add: statedCriteria_def oneOfSelected_def milkHighWork_fields milk_def)
  from applyFilters_all_active_criteria [of asciiLowerCase, OF e n p c, of "[milk, report]" report]
       e p c r m milkHighWork_reachable
  show ?thesis by simp
qed

text \<open>
  Claim C6.  Filtering is idempotent: the filter applied to its own output returns
  that output; and the empty filter state (no search text, no selected priority
  or category, mode \<^verbatim>\<open>all\<close>) returns the whole list unchanged.  This holds with
  every case mapping.
\<close>

theorem applyFilters_idempotent:
  "applyFilters toLowerCase f (applyFilters toLowerCase f ts) = applyFilters toLowerCase f ts \<and>
   applyFilters toLowerCase initialFilters ts = ts"
  by (simp add: applyFilters_def keepTask_initialFilters)

theorem applyFilters_idempotent_witness:
  "applyFilters asciiLowerCase milkHighWork
     (applyFilters asciiLowerCase milkHighWork [milk, report]) =
     applyFilters asciiLowerCase milkHighWork [milk, report] \<and>
   applyFilters asciiLowerCase initialFilters [milk, report] = [milk, report]"
  using applyFilters_idempotent [of asciiLowerCase milkHighWork "[milk, report]"]
  by simp


section \<open>Properties of the storage and of the task handlers\<close>

lemma find_map_same_key:
  "(\<And>x. key (f x) = key x) \<Longrightarrow>
   find (\<lambda>x. key x = k) (map (\<lambda>x. if key x = k then f x else x) xs) =
     map_option f (find (\<lambda>x. key x = k) xs)"
  by (induction xs) auto

lemma find_hd_filter:
  "find P xs = Some x \<Longrightarrow> \<exists>rest. filter P xs = x # rest"
  by (induction xs) (auto split: if_splits)

lemma id_task_setColumns [simp]: "id_task (setColumns u t) = id_task t"
  by (simp add: setColumns_def)

lemma updateTask_found:
  assumes "getTask db i = Some t" and "\<not> noValuesToSet u"
  shows "updateTask db i u =
           Inr (Some (setColumns u t),
                db\<lparr>tasks := map (\<lambda>x. if id_task x = i then setColumns u x else x) (tasks db)\<rparr>)"
proof -
  from assms(1) obtain rest where "filter (\<lambda>x. id_task x = i) (tasks db) = t # rest"
    unfolding getTask_def by (blast dest: find_hd_filter)
  with assms(2) show ?thesis by (simp add: updateTask_def)
qed

lemma getTask_after_update:
  "getTask (db\<lparr>tasks := map (\<lambda>x. if id_task x = i then setColumns u x else x) (tasks db)\<rparr>) i =
     map_option (setColumns u) (getTask db i)"
  unfolding getTask_def
  using find_map_same_key [of id_task "setColumns u" i "tasks db"] by simp

lemma patch_task_own:
  assumes "authenticateToken env cookie = Inr caller"
    and "schema body = Inr updates"
    and "getTask db i = Some task"
    and "userId task = caller"
    and "\<not> noValuesToSet updates"
  shows "patch_task env schema db cookie i body =
           (Json (Some (setColumns updates task)),
            db\<lparr>tasks := map (\<lambda>x. if id_task x = i then setColumns updates x else x) (tasks db)\<rparr>)"
  using assms by (simp add: patch_task_def updateTask_found)

lemma patch_task_accepted:
  assumes "authenticateToken env cookie = Inr caller"
    and "schema body = Inr updates"
    and "getTask db i = Some task"
    and "patch_task env schema db cookie i body = (Json sent, db')"
  shows "userId task = caller \<and> \<not> noValuesToSet updates"
  using assms
  by (auto simp: patch_task_def updateTask_def split: if_splits)

lemma set_getTasksByUserId:
  "set (getTasksByUserId db uid) = {t \<in> set (tasks db). userId t = uid}"
  by (auto simp: getTasksByUserId_def orderByCreatedAtDesc_def)

lemma mset_getTasksByUserId:
  "mset (getTasksByUserId db uid) = filter_mset (\<lambda>t. userId t = uid) (mset (tasks db))"
  by (simp add: getTasksByUserId_def orderByCreatedAtDesc_def)

lemma sorted_orderByCreatedAtDesc:
  "sorted_wrt (\<lambda>a b. createdAt b \<le> createdAt a) (orderByCreatedAtDesc rows)"
proof -
  have "sorted (map createdAt (sort_key createdAt rows))"
    by (rule sorted_sort_key)
  then have "sorted_wrt (\<lambda>a b. createdAt a \<le> createdAt b) (sort_key createdAt rows)"
    by (simp add: sorted_wrt_map)
  then show ?thesis
    by (simp add: orderByCreatedAtDesc_def sorted_wrt_rev)
qed

lemma sorted_getTasksByUserId:
  "sorted_wrt (\<lambda>a b. createdAt b \<le> createdAt a) (getTasksByUserId db uid)"
  unfolding getTasksByUserId_def by (rule sorted_orderByCreatedAtDesc)

lemma auth_alice: "authenticateToken exampleEnv (Some aliceToken) = Inr ''u1''"
  by (simp add: authenticateToken_def jwt_verify_def jwt_sign_def aliceToken_def exampleEnv_def)

lemma auth_bob: "authenticateToken exampleEnv (Some bobToken) = Inr ''u2''"
  by (simp add: authenticateToken_def jwt_verify_def jwt_sign_def bobToken_def exampleEnv_def)

lemma completeBody_parsed:
  "insertTaskSchema_partial completeBody =
     Inr \<lparr>set_title = None, set_description = Omitted, set_dueDate = Omitted,
          set_completed = Some True, set_priority = Omitted, set_category = Omitted\<rparr>"
  by (simp add: insertTaskSchema_partial_def optionalFieldErrors_def completeBody_def
      optionalNonEmptyString_def optionalText_def optionalTimestamp_def optionalBoolean_def
      optionalPriority_def)

lemma getTask_t1: "getTask exampleDb ''t1'' = Some milk"
  by (simp add: getTask_def exampleDb_def milk_def)

lemma getTask_t7: "getTask exampleDb ''t7'' = None"
  by (simp add: getTask_def exampleDb_def milk_def errand_def report_def)


section \<open>The claims about the task handlers\<close>

text \<open>
  Claim C4.  For an authenticated caller, the list request answers with exactly
  the tasks whose owner is the caller, each as often as the table holds it and
  none of another user, ordered by creation timestamp, newest first.
\<close>

theorem get_tasks_own_newest_first:
  assumes "authenticateToken env cookie = Inr caller"
  shows "get_tasks env db cookie = Json (getTasksByUserId db caller) \<and>
         set (getTasksByUserId db caller) = {t \<in> set (tasks db). userId t = caller} \<and>
         mset (getTasksByUserId db caller) =
           filter_mset (\<lambda>t. userId t = caller) (mset (tasks db)) \<and>
         sorted_wrt (\<lambda>a b. createdAt b \<le> createdAt a) (getTasksByUserId db caller)"
  using assms
  by (simp add: get_tasks_def set_getTasksByUserId mset_getTasksByUserId
      sorted_getTasksByUserId)

theorem get_tasks_own_newest_first_witness:
  "authenticateToken exampleEnv (Some aliceToken) = Inr ''u1'' \<and>
   get_tasks exampleEnv exampleDb (Some aliceToken) = Json [report, milk] \<and>
   set [report, milk] = {t \<in> set (tasks exampleDb). userId t = ''u1''}"
proof -
  have l: "getTasksByUserId exampleDb ''u1'' = [report, milk]"
    by code_simp
  from get_tasks_own_newest_first [OF auth_alice, of exampleDb] auth_alice l
  show ?thesis by simp
qed

text \<open>
  Claim C1.  For an authenticated caller and any task id: when no task has the
  id, delete answers 404, and so does update for a body the schema accepts; when
  the task exists and its owner is not the caller, both answer 403.  The lookup
  comes first, so an absent id gives 404 whoever calls.  In both cases the
  response is the fixed message and the database is unchanged; and whatever the
  body, an update of a task that is absent or not the caller's never answers
  with a task and changes nothing.
\<close>

theorem update_delete_existence_then_ownership:
  assumes "authenticateToken env cookie = Inr caller"
  shows "(getTask db i = None \<longrightarrow>
            delete_task env db cookie i = (Failed 404 ''Task not found'', db) \<and>
            (\<forall>updates. schema body = Inr updates \<longrightarrow>
               patch_task env schema db cookie i body = (Failed 404 ''Task not found'', db))) \<and>
         (\<forall>task. getTask db i = Some task \<and> userId task \<noteq> caller \<longrightarrow>
            delete_task env db cookie i = (Failed 403 ''Forbidden'', db) \<and>
            (\<forall>updates. schema body = Inr updates \<longrightarrow>
               patch_task env schema db cookie i body = (Failed 403 ''Forbidden'', db))) \<and>
         ((\<forall>task. getTask db i = Some task \<longrightarrow> userId task \<noteq> caller) \<longrightarrow>
            snd (patch_task env schema db cookie i body) = db \<and>
            (\<forall>sent. fst (patch_task env schema db cookie i body) \<noteq> Json sent))"
  using assms
  by (auto simp: delete_task_def patch_task_def split: sum.splits option.splits)

theorem update_delete_existence_then_ownership_witness:
  "authenticateToken exampleEnv (Some bobToken) = Inr ''u2'' \<and>
   getTask exampleDb ''t7'' = None \<and>
   delete_task exampleEnv exampleDb (Some bobToken) ''t7'' =
     (Failed 404 ''Task not found'', exampleDb) \<and>
   patch_task exampleEnv insertTaskSchema_partial exampleDb (Some bobToken) ''t7'' completeBody =
     (Failed 404 ''Task not found'', exampleDb) \<and>
   getTask exampleDb ''t1'' = Some milk \<and> userId milk \<noteq> ''u2'' \<and>
   delete_task exampleEnv exampleDb (Some bobToken) ''t1'' = (Failed 403 ''Forbidden'', exampleDb) \<and>
   patch_task exampleEnv insertTaskSchema_partial exampleDb (Some bobToken) ''t1'' completeBody =
     (Failed 403 ''Forbidden'', exampleDb)"
proof -
  have o: "userId milk \<noteq> ''u2''"
    by (simp add: milk_def)
  from update_delete_existence_then_ownership
         [OF auth_bob, of exampleDb "''t7''" insertTaskSchema_partial completeBody]
       update_delete_existence_then_ownership
         [OF auth_bob, of exampleDb "''t1''" insertTaskSchema_partial completeBody]
       auth_bob getTask_t7 getTask_t1 completeBody_parsed o
  show ?thesis by simp
qed

text \<open>
  Claim C2.  An update that is accepted (the caller is authenticated, the schema
  accepts the body, the task exists, and the answer is 200) is an update of the
  caller's own task; it answers with the updated task, which is the row now
  stored under the id; that row has the owner, the identifier and the creation
  timestamp of the task before, and every field that the partial input leaves
  out has its prior value.
\<close>

theorem update_keeps_owner_id_and_omitted_fields:
  assumes "authenticateToken env cookie = Inr caller"
    and "schema body = Inr updates"
    and "getTask db i = Some task"
    and "patch_task env schema db cookie i body = (Json sent, db')"
  shows "\<exists>updated.
           sent = Some updated \<and>
           getTask db' i = Some updated \<and>
           userId task = caller \<and>
           userId updated = userId task \<and>
           id_task updated = id_task task \<and>
           createdAt updated = createdAt task \<and>
           (set_title updates = None \<longrightarrow> title updated = title task) \<and>
           (set_description updates = Omitted \<longrightarrow> description updated = description task) \<and>
           (set_dueDate updates = Omitted \<longrightarrow> dueDate updated = dueDate task) \<and>
           (set_completed updates = None \<longrightarrow> completed updated = completed task) \<and>
           (set_priority updates = Omitted \<longrightarrow> priority updated = priority task) \<and>
           (set_category updates = Omitted \<longrightarrow> category updated = category task)"
proof -
  let ?row = "setColumns updates task"
  let ?db' = "db\<lparr>tasks := map (\<lambda>x. if id_task x = i then setColumns updates x else x) (tasks db)\<rparr>"
  from assms have o: "userId task = caller" and v: "\<not> noValuesToSet updates"
    using patch_task_accepted [of env cookie caller schema body updates db i task sent db']
    by simp_all
  from assms(1-3) o v
  have "patch_task env schema db cookie i body = (Json (Some ?row), ?db')"
    by (rule patch_task_own)
  with assms(4) have p: "sent = Some ?row" "db' = ?db'"
    by simp_all
  have g: "getTask ?db' i = Some ?row"
    using assms(3) by (simp add: getTask_after_update)
  have f: "userId ?row = userId task" "id_task ?row = id_task task"
    "createdAt ?row = createdAt task"
    "set_title updates = None \<longrightarrow> title ?row = title task"
    "set_description updates = Omitted \<longrightarrow> description ?row = description task"
    "set_dueDate updates = Omitted \<longrightarrow> dueDate ?row = dueDate task"
    "set_completed updates = None \<longrightarrow> completed ?row = completed task"
    "set_priority updates = Omitted \<longrightarrow> priority ?row = priority task"
    "set_category updates = Omitted \<longrightarrow> category ?row = category task"
    by (simp_all add: setColumns_def)
  from o p g f show ?thesis
    by (intro exI [of _ ?row]) simp
qed

theorem update_keeps_owner_id_and_omitted_fields_witness:
  "authenticateToken exampleEnv (Some aliceToken) = Inr ''u1'' \<and>
   getTask exampleDb ''t1'' = Some milk \<and>
   patch_task exampleEnv insertTaskSchema_partial exampleDb (Some aliceToken) ''t1'' completeBody =
     (Json (Some (milk\<lparr>completed := True\<rparr>)),
      exampleDb\<lparr>tasks := [milk\<lparr>completed := True\<rparr>, errand, report]\<rparr>) \<and>
   getTask (exampleDb\<lparr>tasks := [milk\<lparr>completed := True\<rparr>, errand, report]\<rparr>) ''t1'' =
     Some (milk\<lparr>completed := True\<rparr>) \<and>
   userId (milk\<lparr>completed := True\<rparr>) = ''u1'' \<and>
   id_task (milk\<lparr>completed := True\<rparr>) = ''t1'' \<and>
   title (milk\<lparr>completed := True\<rparr>) = ''Buy Milk'' \<and>
   priority (milk\<lparr>completed := True\<rparr>) = Some ''medium''"
proof -
  have o: "userId milk = ''u1''"
    by (simp add: milk_def)
  let ?u = "\<lparr>set_title = None, set_description = Omitted, set_dueDate = Omitted,
             set_completed = Some True, set_priority = Omitted, set_category = Omitted\<rparr>"
  have r: "setColumns ?u milk = milk\<lparr>completed := True\<rparr>"
    by (simp add: setColumns_def)
  have t: "map (\<lambda>x. if id_task x = ''t1'' then setColumns ?u x else x) (tasks exampleDb) =
           [milk\<lparr>completed := True\<rparr>, errand, report]"
    by (simp add: exampleDb_def r) (simp add: milk_def errand_def report_def)
  have v: "\<not> noValuesToSet ?u"
    by (simp add: noValuesToSet_def)
  have p: "patch_task exampleEnv insertTaskSchema_partial exampleDb (Some aliceToken) ''t1''
             completeBody =
           (Json (Some (milk\<lparr>completed := True\<rparr>)),
            exampleDb\<lparr>tasks := [milk\<lparr>completed := True\<rparr>, errand, report]\<rparr>)"
    using patch_task_own
            [where schema = insertTaskSchema_partial and body = completeBody,
             OF auth_alice completeBody_parsed getTask_t1 o v]
    by (simp only: r t)
  from update_keeps_owner_id_and_omitted_fields
         [where schema = insertTaskSchema_partial and body = completeBody,
          OF auth_alice completeBody_parsed getTask_t1 p]
       auth_alice getTask_t1 p
  show ?thesis by (auto simp: milk_def)
qed

lemma nonEmptyString_Some_iff:
  "nonEmptyString v = Some s \<longleftrightarrow> v = Some (JStr s) \<and> s \<noteq> []"
  by (auto simp: nonEmptyString_def split: option.splits json.splits if_splits)

lemma insertTaskSchema_rejects:
  assumes "nonEmptyString (b ''title'') = None"
  shows "\<exists>errors. insertTaskSchema b = Inl errors \<and> ''title'' \<in> set errors"
  using assms by (simp add: insertTaskSchema_def)

lemma insertTaskSchema_accepts:
  assumes "nonEmptyString (b ''title'') = Some s" and "optionalFieldErrors b = []"
  shows "\<exists>data. insertTaskSchema b = Inr data \<and> new_title data = s"
  using assms by (simp add: insertTaskSchema_def)

lemma post_task_invalid:
  assumes "authenticateToken env cookie = Inr caller" and "schema b = Inl errors"
  shows "post_task env schema db cookie b = (ValidationFailed errors, db)"
  using assms by (simp add: post_task_def)

lemma post_task_valid:
  assumes "authenticateToken env cookie = Inr caller" and "schema b = Inr data"
    and "getUser db caller \<noteq> None"
  shows "\<exists>task. post_task env schema db cookie b = (Json task, db\<lparr>tasks := tasks db @ [task]\<rparr>) \<and>
               userId task = caller \<and> title task = new_title data \<and>
               id_task task = newId env \<and> createdAt task = now env"
  using assms by (simp add: post_task_def createTask_def Let_def)

lemma post_task_missing_user:
  assumes "authenticateToken env cookie = Inr caller" and "schema b = Inr data"
    and "getUser db caller = None"
  shows "post_task env schema db cookie b = (Failed 500 ''Failed to create task'', db)"
  using assms by (simp add: post_task_def createTask_def)

text \<open>The create request keeps the foreign key of the task table.\<close>

lemma post_task_keeps_foreign_keys:
  assumes "foreignKeysHold db"
  shows "foreignKeysHold (snd (post_task env schema db cookie b))"
  using assms
  by (auto simp: post_task_def createTask_def Let_def foreignKeysHold_def getUser_def
      split: sum.splits)

lemma buyMilkBody_parsed:
  "insertTaskSchema buyMilkBody =
     Inr \<lparr>new_title = ''Buy milk'', new_description = Omitted, new_dueDate = Omitted,
          new_completed = None, new_priority = Omitted, new_category = Omitted\<rparr>"
  by (simp add: insertTaskSchema_def optionalFieldErrors_def buyMilkBody_def optionalText_def
      optionalTimestamp_def optionalBoolean_def optionalPriority_def nonEmptyString_def)

lemma auth_carol: "authenticateToken exampleEnv (Some carolToken) = Inr ''u9''"
  by (simp add: authenticateToken_def jwt_verify_def jwt_sign_def carolToken_def exampleEnv_def)

lemma no_user_u9: "getUser exampleDb ''u9'' = None"
  by (simp add: getUser_def exampleDb_def alice_def bob_def)

text \<open>
  Claim C3, as the code has it.  For an authenticated caller, the create request
  validates the body before it touches the database.  A body whose title is
  missing or empty is answered with 422, the title among the errors, and nothing
  is stored; so is every other body the schema rejects.  A body with a non-empty
  title and valid optional fields, from a caller who is in the user table, is
  answered with the created task, which is owned by the caller, carries the
  title, and is the one row added to the table.  From a caller who is in no row
  of the user table, a body that the schema accepts is answered with 500, and
  nothing is stored.
\<close>

theorem create_validates_then_persists_for_users:
  assumes "authenticateToken env cookie = Inr caller"
  shows "(b ''title'' = None \<or> b ''title'' = Some (JStr []) \<longrightarrow>
            (\<exists>errors. post_task env insertTaskSchema db cookie b = (ValidationFailed errors, db) \<and>
                      ''title'' \<in> set errors)) \<and>
         (\<forall>errors. insertTaskSchema b = Inl errors \<longrightarrow>
            post_task env insertTaskSchema db cookie b = (ValidationFailed errors, db)) \<and>
         (\<forall>s. b ''title'' = Some (JStr s) \<and> s \<noteq> [] \<and> optionalFieldErrors b = [] \<and>
              getUser db caller \<noteq> None \<longrightarrow>
            (\<exists>task. post_task env insertTaskSchema db cookie b =
                      (Json task, db\<lparr>tasks := tasks db @ [task]\<rparr>) \<and>
                    userId task = caller \<and> title task = s)) \<and>
         (\<forall>data. insertTaskSchema b = Inr data \<and> getUser db caller = None \<longrightarrow>
            post_task env insertTaskSchema db cookie b = (Failed 500 ''Failed to create task'', db))"
proof (intro conjI allI impI)
  assume "b ''title'' = None \<or> b ''title'' = Some (JStr [])"
  then have "nonEmptyString (b ''title'') = None"
    by (auto simp: nonEmptyString_def)
  from insertTaskSchema_rejects [of b, OF this] post_task_invalid [OF assms, of insertTaskSchema b]
  show "\<exists>errors. post_task env insertTaskSchema db cookie b = (ValidationFailed errors, db) \<and>
                  ''title'' \<in> set errors"
    by blast
next
  fix errors
  assume "insertTaskSchema b = Inl errors"
  then show "post_task env insertTaskSchema db cookie b = (ValidationFailed errors, db)"
    by (rule post_task_invalid [OF assms, of insertTaskSchema b])
next
  fix s
  assume a: "b ''title'' = Some (JStr s) \<and> s \<noteq> [] \<and> optionalFieldErrors b = [] \<and>
             getUser db caller \<noteq> None"
  then have "nonEmptyString (b ''title'') = Some s" and "optionalFieldErrors b = []"
    by (simp_all add: nonEmptyString_Some_iff)
  from insertTaskSchema_accepts [of b s, OF this]
  obtain data where d: "insertTaskSchema b = Inr data" and "new_title data = s"
    by blast
  moreover from a have "getUser db caller \<noteq> None" by simp
  from post_task_valid [where schema = insertTaskSchema and b = b, OF assms d this]
  have "\<exists>task. post_task env insertTaskSchema db cookie b =
                 (Json task, db\<lparr>tasks := tasks db @ [task]\<rparr>) \<and>
               userId task = caller \<and> title task = new_title data \<and>
               id_task task = newId env \<and> createdAt task = now env" .
  ultimately
  show "\<exists>task. post_task env insertTaskSchema db cookie b =
                 (Json task, db\<lparr>tasks := tasks db @ [task]\<rparr>) \<and>
               userId task = caller \<and> title task = s"
    by auto
next
  fix data
  assume "insertTaskSchema b = Inr data \<and> getUser db caller = None"
  then show "post_task env insertTaskSchema db cookie b =
               (Failed 500 ''Failed to create task'', db)"
    using post_task_missing_user [OF assms, of insertTaskSchema b data db] by simp
qed

theorem create_validates_then_persists_for_users_witness:
  "authenticateToken exampleEnv (Some aliceToken) = Inr ''u1'' \<and>
   getUser exampleDb ''u1'' = Some alice \<and>
   post_task exampleEnv insertTaskSchema exampleDb (Some aliceToken) noTitleBody =
     (ValidationFailed [''title''], exampleDb) \<and>
   post_task exampleEnv insertTaskSchema exampleDb (Some aliceToken) emptyTitleBody =
     (ValidationFailed [''title''], exampleDb) \<and>
   post_task exampleEnv insertTaskSchema exampleDb (Some aliceToken) buyMilkBody =
     (Json \<lparr>id_task = ''t4'', userId = ''u1'', title = ''Buy milk'', description = None,
            dueDate = None, completed = False, priority = Some ''medium'', category = None,
            createdAt = 1000\<rparr>,
      exampleDb\<lparr>tasks := tasks exampleDb @
        [\<lparr>id_task = ''t4'', userId = ''u1'', title = ''Buy milk'', description = None,
          dueDate = None, completed = False, priority = Some ''medium'', category = None,
          createdAt = 1000\<rparr>]\<rparr>)"
proof -
  have v: "optionalText None = Some Omitted" "optionalTimestamp None = Some Omitted"
    "optionalBoolean None = Some None" "optionalPriority None = Some Omitted"
    "optionalPriority (Some (JStr ''high'')) = Some (Given ''high'')"
    "optionalText (Some (JStr ''no title given'')) = Some (Given ''no title given'')"
    "nonEmptyString None = None" "nonEmptyString (Some (JStr [])) = None"
    by (simp_all add: optionalText_def optionalTimestamp_def optionalBoolean_def
        optionalPriority_def nonEmptyString_def)
  have n: "insertTaskSchema noTitleBody = Inl [''title'']"
    by (simp add: insertTaskSchema_def optionalFieldErrors_def noTitleBody_def v)
  have e: "insertTaskSchema emptyTitleBody = Inl [''title'']"
    by (simp add: insertTaskSchema_def optionalFieldErrors_def emptyTitleBody_def v)
  have u: "getUser exampleDb ''u1'' = Some alice"
    by (simp add: getUser_def exampleDb_def alice_def)
  have c: "post_task exampleEnv insertTaskSchema exampleDb (Some aliceToken) buyMilkBody =
     (Json \<lparr>id_task = ''t4'', userId = ''u1'', title = ''Buy milk'', description = None,
            dueDate = None, completed = False, priority = Some ''medium'', category = None,
            createdAt = 1000\<rparr>,
      exampleDb\<lparr>tasks := tasks exampleDb @
        [\<lparr>id_task = ''t4'', userId = ''u1'', title = ''Buy milk'', description = None,
          dueDate = None, completed = False, priority = Some ''medium'', category = None,
          createdAt = 1000\<rparr>]\<rparr>)"
  proof -
    have "newId exampleEnv = ''t4''" and "now exampleEnv = 1000"
      by (simp_all add: exampleEnv_def)
    then show ?thesis
      by (simp add: post_task_def auth_alice buyMilkBody_parsed createTask_def u Let_def)
  qed
  from create_validates_then_persists_for_users [OF auth_alice, of noTitleBody exampleDb]
       create_validates_then_persists_for_users [OF auth_alice, of emptyTitleBody exampleDb]
       auth_alice u n e c
  show ?thesis by simp
qed

text \<open>
  Claim C3 as stated fails for a caller whose token is valid and whose user row
  is gone: the body has a non-empty title and valid optional fields, and the
  request is answered with 500, with no task created.
\<close>

theorem create_by_missing_user_counterexample:
  "authenticateToken exampleEnv (Some carolToken) = Inr ''u9'' \<and>
   buyMilkBody ''title'' = Some (JStr ''Buy milk'') \<and>
   optionalFieldErrors buyMilkBody = [] \<and>
   post_task exampleEnv insertTaskSchema exampleDb (Some carolToken) buyMilkBody =
     (Failed 500 ''Failed to create task'', exampleDb)"
proof -
  have "optionalFieldErrors buyMilkBody = []"
    by (simp add: optionalFieldErrors_def buyMilkBody_def optionalText_def
        optionalTimestamp_def optionalBoolean_def optionalPriority_def)
  moreover have "buyMilkBody ''title'' = Some (JStr ''Buy milk'')"
    by (simp add: buyMilkBody_def)
  moreover have "post_task exampleEnv insertTaskSchema exampleDb (Some carolToken) buyMilkBody =
                   (Failed 500 ''Failed to create task'', exampleDb)"
    using post_task_missing_user
            [where schema = insertTaskSchema and b = buyMilkBody,
             OF auth_carol buyMilkBody_parsed no_user_u9] .
  ultimately show ?thesis
    using auth_carol by simp
qed


section \<open>The claims about registration and authentication\<close>

text \<open>
  Claim C8.  In a state that holds a user with the username, a registration
  that the schema accepts for that username is answered with the conflict (400,
  username already exists), sets no cookie, and leaves the database as it was:
  the stored password hash of the existing account is untouched and no user is
  added.
\<close>

theorem register_taken_username_conflict:
  assumes "schema b = Inr (name, pw)"
    and "existingUser \<in> set (users db)"
    and "username existingUser = name"
  shows "register env schema db b = (Failed 400 ''Username already exists'', db, None)"
proof -
  from assms(2,3) have "find (\<lambda>u. username u = name) (users db) \<noteq> None"
    by (auto simp: find_None_iff)
  then obtain u where "getUserByUsername db name = Some u"
    by (auto simp: getUserByUsername_def)
  with assms(1) show ?thesis
    by (simp add: register_def)
qed

theorem register_taken_username_conflict_witness:
  "anyCredentials registerBody = Inr (''alice'', ''pw2'') \<and>
   alice \<in> set (users exampleDb) \<and> username alice = ''alice'' \<and>
   register exampleEnv anyCredentials exampleDb registerBody =
     (Failed 400 ''Username already exists'', exampleDb, None) \<and>
   getUserByUsername exampleDb ''alice'' = Some alice \<and>
   password alice = ''$2a$10$hash-of-pw1''"
proof -
  have s: "anyCredentials registerBody = Inr (''alice'', ''pw2'')"
    by (simp add: anyCredentials_def registerBody_def)
  have m: "alice \<in> set (users exampleDb)"
    by (simp add: exampleDb_def)
  have u: "username alice = ''alice''"
    by (simp add: alice_def)
  have g: "getUserByUsername exampleDb ''alice'' = Some alice"
    by (simp add: getUserByUsername_def exampleDb_def alice_def)
  have p: "password alice = ''$2a$10$hash-of-pw1''"
    by (simp add: alice_def)
  from register_taken_username_conflict
         [where schema = anyCredentials and b = registerBody and env = exampleEnv, OF s m u]
       s m u g p
  show ?thesis by simp
qed

text \<open>
  Claim C9.  A request with a correctly signed, unexpired token is authenticated
  as the user the token names, whether or not that user is in the table: the
  middleware checks the signature and the expiry only.  The list request then
  answers 200; and when the user is in no row of the user table, the task table
  keeping its foreign key to the users, the answer is the empty list.
\<close>

theorem token_of_missing_user_lists_nothing:
  assumes "signedWith token = JWT_SECRET env" and "now env < expiresAt token"
  shows "authenticateToken env (Some token) = Inr (payload_userId token) \<and>
         status (get_tasks env db (Some token)) = 200 \<and>
         (getUser db (payload_userId token) = None \<and> foreignKeysHold db \<longrightarrow>
            get_tasks env db (Some token) = Json [])"
proof -
  have a: "authenticateToken env (Some token) = Inr (payload_userId token)"
    using assms by (simp add: authenticateToken_def jwt_verify_def)
  have "getTasksByUserId db (payload_userId token) = []"
    if "getUser db (payload_userId token) = None" and "foreignKeysHold db"
  proof -
    from that have "filter (\<lambda>t. userId t = payload_userId token) (tasks db) = []"
      by (auto simp: foreignKeysHold_def list_all_iff filter_empty_conv)
    then show ?thesis
      by (simp add: getTasksByUserId_def orderByCreatedAtDesc_def)
  qed
  with a show ?thesis
    by (simp add: get_tasks_def)
qed

theorem token_of_missing_user_lists_nothing_witness:
  "signedWith carolToken = JWT_SECRET exampleEnv \<and> now exampleEnv < expiresAt carolToken \<and>
   payload_userId carolToken = ''u9'' \<and> getUser exampleDb ''u9'' = None \<and>
   foreignKeysHold exampleDb \<and>
   authenticateToken exampleEnv (Some carolToken) = Inr ''u9'' \<and>
   get_tasks exampleEnv exampleDb (Some carolToken) = Json []"
proof -
  have s: "signedWith carolToken = JWT_SECRET exampleEnv"
    by (simp add: carolToken_def jwt_sign_def exampleEnv_def)
  have e: "now exampleEnv < expiresAt carolToken"
    by (simp add: carolToken_def jwt_sign_def exampleEnv_def)
  have p: "payload_userId carolToken = ''u9''"
    by (simp add: carolToken_def jwt_sign_def)
  have g: "getUser exampleDb ''u9'' = None"
    by (simp add: getUser_def exampleDb_def alice_def bob_def)
  have f: "foreignKeysHold exampleDb"
    by (simp add: foreignKeysHold_def getUser_def exampleDb_def alice_def bob_def milk_def
        errand_def report_def)
  from token_of_missing_user_lists_nothing [OF s e, of exampleDb] s e p g f
  show ?thesis by simp
qed


section \<open>The claims about the daily quote\<close>

lemma length_quotes: "length quotes = 20"
  by (simp add: quotes_def)

lemma roundToDouble_upper:
  assumes "2 ^ 53 \<le> n"
  shows "2 * roundToDouble n \<le> 2 * n + 2 ^ (floorlog 2 n - 53)"
proof -
  let ?s = "floorlog 2 n - 53"
  let ?q = "n div 2 ^ ?s"
  let ?r = "n mod 2 ^ ?s"
  have n: "n = ?q * 2 ^ ?s + ?r"
    by (rule div_mult_mod_eq [symmetric])
  show ?thesis
  proof (cases "2 ^ ?s < 2 * ?r \<or> (2 * ?r = 2 ^ ?s \<and> odd ?q)")
    case True
    then have "roundToDouble n = (?q + 1) * 2 ^ ?s"
      using assms by (simp add: roundToDouble_def Let_def)
    then have "2 * roundToDouble n = 2 * (?q * 2 ^ ?s) + 2 * 2 ^ ?s"
      by (simp add: algebra_simps)
    also have "\<dots> \<le> 2 * (?q * 2 ^ ?s) + 2 * ?r + 2 ^ ?s"
      using True by auto
    also have "\<dots> = 2 * n + 2 ^ ?s"
      using n by (metis distrib_left)
    finally show ?thesis .
  next
    case False
    then have "roundToDouble n = ?q * 2 ^ ?s"
      using assms by (simp add: roundToDouble_def Let_def)
    also have "\<dots> \<le> n"
      by simp
    finally show ?thesis by simp
  qed
qed

text \<open>
  The rounded product of a double below 1 and 20 is below 20: the product has at
  most 58 bits, so the rounding moves it by 16 at most, and it is 20 at least
  below \<open>20 * 2 ^ k\<close>.
\<close>

lemma roundToDouble_product_below:
  assumes "m < 2 ^ 53" and "m < 2 ^ k"
  shows "roundToDouble (m * 20) < 20 * 2 ^ k"
proof (cases "m * 20 < 2 ^ 53")
  case True
  then have "roundToDouble (m * 20) = m * 20"
    by (simp add: roundToDouble_def)
  with assms(2) show ?thesis by simp
next
  case False
  then have big: "(2::nat) ^ 53 \<le> m * 20" by simp
  have "m * 20 < 2 ^ 58"
    using assms(1) by simp
  then have "floorlog 2 (m * 20) \<le> 58"
    by (simp add: floorlog_le_iff)
  then have "floorlog 2 (m * 20) - 53 \<le> 5" by simp
  then have "(2::nat) ^ (floorlog 2 (m * 20) - 53) \<le> 2 ^ 5"
    by (rule power_increasing) simp
  with roundToDouble_upper [OF big]
  have "2 * roundToDouble (m * 20) \<le> 2 * (m * 20) + 32"
    by simp
  moreover from assms(2) have "m + 1 \<le> 2 ^ k" by simp
  then have "20 * (m + 1) \<le> 20 * 2 ^ k"
    by (rule mult_le_mono2)
  ultimately show ?thesis by simp
qed

lemma randomQuote_in_quotes:
  assumes "isMathRandom random"
  shows "\<exists>q\<in>set quotes. randomQuote random = Some q"
proof -
  let ?i = "roundToDouble (significand random * length quotes) div 2 ^ binaryPlaces random"
  from assms have "roundToDouble (significand random * 20) < 20 * 2 ^ binaryPlaces random"
    unfolding isMathRandom_def by (intro roundToDouble_product_below) simp_all
  then have "?i < length quotes"
    by (simp add: length_quotes less_mult_imp_div_less)
  then have "quotes ! ?i \<in> set quotes" and "randomQuote random = Some (quotes ! ?i)"
    by (simp_all add: randomQuote_def Let_def)
  then show ?thesis by blast
qed

lemma randomQuote_half: "randomQuote half = Some (quotes ! 10)"
  by (simp add: randomQuote_def half_def length_quotes roundToDouble_def)

lemma randomQuote_nearly015: "randomQuote nearly015 = Some (quotes ! 3)"
proof -
  have "floorlog 2 108086391056891900 = 57"
    by (simp add: compute_floorlog)
  then have "roundToDouble 108086391056891900 = 108086391056891904"
    by (simp add: roundToDouble_def Let_def)
  then show ?thesis
    by (simp add: randomQuote_def nearly015_def length_quotes)
qed

lemma randomQuote_largestBelowOne: "randomQuote largestBelowOne = Some (quotes ! 19)"
proof -
  have "floorlog 2 180143985094819820 = 58"
    by (simp add: compute_floorlog)
  then have "roundToDouble 180143985094819820 = 180143985094819808"
    by (simp add: roundToDouble_def Let_def)
  then show ?thesis
    by (simp add: randomQuote_def largestBelowOne_def length_quotes)
qed

lemma get_daily_quote_from_list:
  assumes "cacheFromList cache" and "isMathRandom random"
  shows "(\<exists>q\<in>set quotes. fst (get_daily_quote today random refresh cache) = Json (Some q)) \<and>
         cacheFromList (snd (get_daily_quote today random refresh cache))"
  using assms(1) randomQuote_in_quotes [OF assms(2)]
  by (auto simp: get_daily_quote_def cacheFromList_def Let_def split: option.splits)

lemma serve_step:
  "serve cache ((today, random, refresh) # calls) =
     fst (get_daily_quote today random refresh cache) #
     serve (snd (get_daily_quote today random refresh cache)) calls"
  by (simp add: case_prod_beta)

lemma serve_from_list:
  assumes "cacheFromList cache"
    and "\<forall>(today, random, refresh)\<in>set calls. isMathRandom random"
  shows "\<forall>sent\<in>set (serve cache calls). \<exists>q\<in>set quotes. sent = Json (Some q)"
  using assms
proof (induction calls arbitrary: cache)
  case Nil
  then show ?case by simp
next
  case (Cons call calls)
  obtain today random refresh where call: "call = (today, random, refresh)"
    by (cases call) auto
  from Cons.prems(2) call have r: "isMathRandom random" by auto
  from get_daily_quote_from_list [OF Cons.prems(1) r, of today refresh]
  obtain q where q: "q \<in> set quotes"
      "fst (get_daily_quote today random refresh cache) = Json (Some q)"
    and inv: "cacheFromList (snd (get_daily_quote today random refresh cache))"
    by blast
  from Cons.IH [OF inv] Cons.prems(2)
  have "\<forall>sent\<in>set (serve (snd (get_daily_quote today random refresh cache)) calls).
          \<exists>q\<in>set quotes. sent = Json (Some q)"
    by simp
  with q show ?case
    unfolding call serve_step by auto
qed

lemma serve_cached:
  assumes "\<forall>call\<in>set calls. fst call = date c"
  shows "\<forall>sent\<in>set (serve (Some c) calls). sent = Json (picked c)"
  using assms
  by (induction calls) (auto simp: get_daily_quote_def)

lemma date_after_call:
  "\<exists>c. snd (get_daily_quote today random refresh cache) = Some c \<and> date c = today \<and>
       fst (get_daily_quote today random refresh cache) = Json (picked c)"
  by (auto simp: get_daily_quote_def Let_def split: option.splits)

lemma serve_exampleCalls:
  "serve None exampleCalls =
     [Json (Some (quotes ! 10)), Json (Some (quotes ! 10)), Json (Some (quotes ! 19))]"
  by (simp add: exampleCalls_def get_daily_quote_def randomQuote_half
      randomQuote_largestBelowOne Let_def)

lemma serve_mondayCalls:
  "serve None mondayCalls =
     [Json (Some (quotes ! 10)), Json (Some (quotes ! 10)), Json (Some (quotes ! 10))]"
  by (simp add: mondayCalls_def get_daily_quote_def randomQuote_half Let_def)

lemma quotes_10:
  "quotes ! 10 = \<lparr>text_quote = ''Dream it. Wish it. Do it.'', author = ''Unknown''\<rparr>"
  by (simp add: quotes_def)

text \<open>
  Claim C7.  The path parameter changes nothing: the handler answers and caches
  the same with any value of it.  A call on the day of the call before it gets
  the answer of that call, whatever its random number and path parameter; so the
  answer can change only when the day does.  And in any run of calls that all
  fall on one day, from any cache, every answer is the answer of the first call.
\<close>

theorem daily_quote_same_within_day:
  "get_daily_quote today random refresh cache = get_daily_quote today random refresh' cache \<and>
   fst (get_daily_quote today random' refresh' (snd (get_daily_quote today random refresh cache))) =
     fst (get_daily_quote today random refresh cache) \<and>
   ((\<forall>call\<in>set calls. fst call = today) \<longrightarrow>
      (\<forall>sent\<in>set (serve cache calls). sent = hd (serve cache calls)))"
proof -
  have 1: "get_daily_quote today random refresh cache = get_daily_quote today random refresh' cache"
    by (simp add: get_daily_quote_def)
  have 2: "fst (get_daily_quote today random' refresh' (snd (get_daily_quote today random refresh cache))) =
     fst (get_daily_quote today random refresh cache)"
    by (auto simp: get_daily_quote_def Let_def split: option.splits)
  have 3: "\<forall>sent\<in>set (serve cache calls). sent = hd (serve cache calls)"
    if same: "\<forall>call\<in>set calls. fst call = today"
  proof (cases calls)
    case Nil
    then show ?thesis by simp
  next
    case (Cons call rest)
    obtain d r f where call: "call = (d, r, f)" by (cases call) auto
    from same Cons call have d: "d = today" by simp
    from date_after_call [of today r f cache]
    obtain c where c: "snd (get_daily_quote today r f cache) = Some c" "date c = today"
        "fst (get_daily_quote today r f cache) = Json (picked c)"
      by blast
    from same Cons c(2) have "\<forall>call\<in>set rest. fst call = date c" by simp
    from serve_cached [OF this]
    have "\<forall>sent\<in>set (serve (Some c) rest). sent = Json (picked c)" .
    with c show ?thesis
      unfolding Cons call d serve_step by auto
  qed
  from 1 2 3 show ?thesis by blast
qed


theorem daily_quote_same_within_day_witness:
  "serve None mondayCalls =
     [Json (Some \<lparr>text_quote = ''Dream it. Wish it. Do it.'', author = ''Unknown''\<rparr>),
      Json (Some \<lparr>text_quote = ''Dream it. Wish it. Do it.'', author = ''Unknown''\<rparr>),
      Json (Some \<lparr>text_quote = ''Dream it. Wish it. Do it.'', author = ''Unknown''\<rparr>)] \<and>
   get_daily_quote ''Mon Nov 02 2026'' half None None =
     get_daily_quote ''Mon Nov 02 2026'' half (Some ''1'') None"
  using daily_quote_same_within_day
          [of "''Mon Nov 02 2026''" half None None "Some ''1''" nearly015 mondayCalls]
    serve_mondayCalls quotes_10
  by simp

text \<open>
  Claim C10.  The list has twenty quotes.  In every run of the process, from the
  empty cache and with every double that \<^verbatim>\<open>Math.random()\<close> can return (at least 0
  and less than 1), every answer is a quote of the list, sent with status 200:
  the floor of the rounded product never misses the list.
\<close>

theorem daily_quote_always_from_list:
  assumes "\<forall>(today, random, refresh)\<in>set calls. isMathRandom random"
  shows "length quotes = 20 \<and>
         (\<forall>sent\<in>set (serve None calls). \<exists>q\<in>set quotes. sent = Json (Some q)) \<and>
         (\<forall>sent\<in>set (serve None calls). status sent = 200)"
proof -
  have a: "\<forall>sent\<in>set (serve None calls). \<exists>q\<in>set quotes. sent = Json (Some q)"
    using assms by (intro serve_from_list) (simp_all add: cacheFromList_def)
  then have "\<forall>sent\<in>set (serve None calls). status sent = 200" by fastforce
  with a show ?thesis by (simp add: length_quotes)
qed

theorem daily_quote_always_from_list_witness:
  "isMathRandom half \<and> isMathRandom nearly015 \<and> isMathRandom largestBelowOne \<and>
   length quotes = 20 \<and>
   randomQuote nearly015 = Some (quotes ! 3) \<and>
   serve None exampleCalls =
     [Json (Some (quotes ! 10)), Json (Some (quotes ! 10)), Json (Some (quotes ! 19))] \<and>
   quotes ! 10 \<in> set quotes \<and> quotes ! 19 \<in> set quotes \<and>
   quotes ! 19 = \<lparr>text_quote = ''Don't wait for opportunity. Create it.'',
                   author = ''Unknown''\<rparr>"
proof -
  have m: "isMathRandom half" "isMathRandom nearly015" "isMathRandom largestBelowOne"
    by (simp_all add: isMathRandom_def half_def nearly015_def largestBelowOne_def)
  then have r: "\<forall>(today, random, refresh)\<in>set exampleCalls. isMathRandom random"
    by (simp add: exampleCalls_def)
  have q: "quotes ! 19 = \<lparr>text_quote = ''Don't wait for opportunity. Create it.'',
                          author = ''Unknown''\<rparr>"
    by (simp add: quotes_def)
  from daily_quote_always_from_list [OF r] serve_exampleCalls randomQuote_nearly015 m q
  show ?thesis by simp
qed


end
